theory Spec2Isabelle
  imports Main "HOL-Library.Word"
begin

unbundle bit_operations_syntax

section \<open>The scope subsystem of chproxy (scope.go)\<close>

text \<open>
  A shallow embedding of \<^verbatim>\<open>scope.go\<close>: the query counters, the hosts with their health
  flag and penalty, the host selection of a cluster, the admission control of a scope,
  the rewriting of the proxied request and the cancellation request.

  Conventions.
  \<^item> Go's \<^verbatim>\<open>uint32\<close> is \<open>32 word\<close>: \<open>+\<close> wraps, \<open>NOT\<close> is Go's unary \<^verbatim>\<open>^\<close>.
  \<^item> The atomic operations of \<^verbatim>\<open>sync/atomic\<close> are single steps of a sequential model:
    \<^verbatim>\<open>atomic.AddUint32(&x, d)\<close> stores \<open>x + d\<close> and returns the stored value,
    \<^verbatim>\<open>atomic.LoadUint32\<close> reads the field.
  \<^item> A method with a pointer receiver that mutates it returns the updated object.
  \<^item> A Go runtime panic is the value \<open>Panics\<close>.
  \<^item> Go's \<^verbatim>\<open>int\<close> has 64 bits.

  \<^verbatim>\<open>scope.String\<close> and \<^verbatim>\<open>host.runHeartbeat\<close> are not part of the development; the
  heartbeat is the only writer of \<^verbatim>\<open>host.active\<close>.
\<close>

type_synonym uint32 = "32 word"
type_synonym Duration = "64 word"  \<comment> \<open>\<^verbatim>\<open>time.Duration\<close>: nanoseconds\<close>

definition Second :: Duration where
  "Second = 1000000000"

datatype 'a go = Panics | Returns 'a

text \<open>\<^verbatim>\<open>a % b\<close> on \<^verbatim>\<open>uint32\<close>: integer division by zero is a runtime panic.\<close>

definition umod :: "uint32 \<Rightarrow> uint32 \<Rightarrow> uint32 go" where
  "umod a b = (if b = 0 then Panics else Returns (a mod b))"

subsection \<open>queryCounter\<close>

record queryCounter =
  "value" :: uint32

text \<open>
  \<^verbatim>\<open>user\<close>, \<^verbatim>\<open>clusterUser\<close> and \<^verbatim>\<open>host\<close> embed a \<^verbatim>\<open>queryCounter\<close>; they are
  extensions of this record, and the three methods work on every extension.
\<close>

definition queryCounter_runningQueries :: "'a queryCounter_scheme \<Rightarrow> uint32" where
  "queryCounter_runningQueries qc = value qc"

definition queryCounter_inc :: "'a queryCounter_scheme \<Rightarrow> 'a queryCounter_scheme \<times> uint32" where
  "queryCounter_inc qc = (qc\<lparr>value := value qc + 1\<rparr>, value qc + 1)"

definition queryCounter_dec :: "'a queryCounter_scheme \<Rightarrow> 'a queryCounter_scheme" where
  "queryCounter_dec qc = qc\<lparr>value := value qc + NOT 0\<rparr>"

subsection \<open>url.URL, as far as scope.go reads and writes it\<close>

text \<open>
  \<open>Query_url\<close> is the query string in parsed form, the \<^verbatim>\<open>url.Values\<close> that
  \<^verbatim>\<open>URL.Query()\<close> returns: a map from a key to the list of its values. Assigning
  \<^verbatim>\<open>RawQuery = params.Encode()\<close> stores \<open>params\<close>.
\<close>

type_synonym Values = "string \<rightharpoonup> string list"

record url =
  Scheme :: string
  Host :: string
  Path :: string
  Query_url :: Values

text \<open>\<^verbatim>\<open>Values.Get\<close>: the first value of the key, the empty string when there is none.\<close>

definition Values_Get :: "Values \<Rightarrow> string \<Rightarrow> string" where
  "Values_Get v key = (case v key of None \<Rightarrow> [] | Some [] \<Rightarrow> [] | Some (x # _) \<Rightarrow> x)"

text \<open>\<^verbatim>\<open>Values.Set\<close>: the key gets the one value, replacing what it had.\<close>

definition Values_Set :: "Values \<Rightarrow> string \<Rightarrow> string \<Rightarrow> Values" where
  "Values_Set v key x = v(key \<mapsto> [x])"

subsection \<open>host\<close>

record host = queryCounter +
  penalty :: uint32
  active :: uint32
  addr :: url

definition host_isActive :: "host \<Rightarrow> bool" where
  "host_isActive h = (active h = 1)"

definition penaltyMaxSize :: uint32 where
  "penaltyMaxSize = 300"

definition penaltyDuration :: Duration where
  "penaltyDuration = Second * 10"

definition penaltySize :: uint32 where
  "penaltySize = 5"

text \<open>The function that \<^verbatim>\<open>penalize\<close> hands to \<^verbatim>\<open>time.AfterFunc\<close>.\<close>

definition penalize_decay :: "host \<Rightarrow> host" where
  "penalize_decay h = h\<lparr>penalty := penalty h + NOT (penaltySize - 1)\<rparr>"

text \<open>
  \<^verbatim>\<open>penalize\<close> returns the host, the delays of the timers it has started with
  \<^verbatim>\<open>time.AfterFunc\<close> (each runs \<open>penalize_decay\<close> when it fires) and the number of
  increments of the \<^verbatim>\<open>hostPenalties\<close> metric.
\<close>

definition host_penalize :: "host \<Rightarrow> host \<times> Duration list \<times> nat" where
  "host_penalize h =
     (let p = penalty h in
      if p \<ge> penaltyMaxSize then (h, [], 0)
      else (h\<lparr>penalty := penalty h + penaltySize\<rparr>, [penaltyDuration], 1))"

text \<open>The host's own \<^verbatim>\<open>runningQueries\<close> adds the penalty to the counter.\<close>

definition host_runningQueries :: "host \<Rightarrow> uint32" where
  "host_runningQueries h =
     (let c = queryCounter_runningQueries h; p = penalty h in c + p)"

subsection \<open>user and clusterUser\<close>

record clusterUser = queryCounter +
  name :: string
  password :: string
  maxExecutionTime :: Duration
  maxConcurrentQueries :: uint32

record user = queryCounter +
  toUser :: string
  toCluster :: string
  denyHTTP :: bool
  denyHTTPS :: bool
  allowedNetworks :: "string list"  \<comment> \<open>\<^verbatim>\<open>config.Networks\<close>, not read by scope.go\<close>
  name :: string
  password :: string
  maxExecutionTime :: Duration
  maxConcurrentQueries :: uint32

subsection \<open>cluster and the selection of a host\<close>

record cluster =
  nextIdx :: uint32
  hosts :: "host list"
  users :: "string \<rightharpoonup> clusterUser"
  killQueryUserName :: string
  killQueryUserPassword :: string
  heartBeatInterval :: Duration

text \<open>
  A \<^verbatim>\<open>*host\<close> that \<^verbatim>\<open>getHost\<close> returns points into \<^verbatim>\<open>c.hosts\<close>: it is the position of
  the host in the list, \<open>None\<close> for \<^verbatim>\<open>nil\<close>.

  The \<^verbatim>\<open>for\<close> loop of \<^verbatim>\<open>getHost\<close>, with the code after it. Nothing in the loop itself
  bounds the number of rounds, so the function is partial: \<open>None\<close> is a loop that does
  not end. \<open>hs\<close> is \<^verbatim>\<open>c.hosts\<close>, \<open>idle\<close> and \<open>idleN\<close> are the candidate and its load.
  Indexing \<^verbatim>\<open>c.hosts[i]\<close> panics out of range.
\<close>

partial_function (option) getHost_loop ::
  "host list \<Rightarrow> uint32 \<Rightarrow> uint32 \<Rightarrow> uint32 \<Rightarrow> nat \<Rightarrow> uint32 \<Rightarrow> nat option go option" where
  "getHost_loop hs l idx i idle idleN =
     (if i \<noteq> idx then
        (if unat i < length hs then
           (let h = hs ! unat i in
            if \<not> host_isActive h then
              (case umod (i + 1) l of Panics \<Rightarrow> Some Panics
               | Returns i' \<Rightarrow> getHost_loop hs l idx i' idle idleN)
            else
              (let n = host_runningQueries h in
               if n = 0 then Some (Returns (Some (unat i)))
               else if n < idleN then
                 (case umod (i + 1) l of Panics \<Rightarrow> Some Panics
                  | Returns i' \<Rightarrow> getHost_loop hs l idx i' (unat i) n)
               else
                 (case umod (i + 1) l of Panics \<Rightarrow> Some Panics
                  | Returns i' \<Rightarrow> getHost_loop hs l idx i' idle idleN)))
         else Some Panics)
      else if \<not> host_isActive (hs ! idle) then Some (Returns None)
      else Some (Returns (Some idle)))"

text \<open>
  \<^verbatim>\<open>getHost\<close> returns the cluster with the cursor moved and the pointer to the host.
  \<^verbatim>\<open>uint32(len(c.hosts))\<close> keeps the low 32 bits of the length.
\<close>

definition cluster_getHost :: "cluster \<Rightarrow> (cluster \<times> nat option) go option" where
  "cluster_getHost c =
     (let idx = nextIdx c + 1;
          c' = c\<lparr>nextIdx := idx\<rparr>;
          l = (word_of_nat (length (hosts c)) :: uint32)
      in case umod idx l of Panics \<Rightarrow> Some Panics
         | Returns idx \<Rightarrow>
             if unat idx < length (hosts c) then
               (let idle = unat idx;
                    idleN = host_runningQueries (hosts c ! idle)
                in if idleN = 0 \<and> host_isActive (hosts c ! idle) then Some (Returns (c', Some idle))
                   else
                     (case umod (idx + 1) l of Panics \<Rightarrow> Some Panics
                      | Returns i \<Rightarrow>
                          (case getHost_loop (hosts c) l idx i idle idleN of
                             None \<Rightarrow> None
                           | Some Panics \<Rightarrow> Some Panics
                           | Some (Returns r) \<Rightarrow> Some (Returns (c', r)))))
             else Some Panics)"

subsection \<open>Errors\<close>

text \<open>One constructor for each \<^verbatim>\<open>fmt.Errorf\<close> of the file, with the values it formats.\<close>

datatype error =
    NoActiveHosts  \<comment> \<open>no active hosts\<close>
  | UserLimitsExceeded string uint32  \<comment> \<open>limits for user .. are exceeded\<close>
  | ClusterUserLimitsExceeded string uint32  \<comment> \<open>limits for cluster user .. are exceeded\<close>
  | CreateRequestError string string  \<comment> \<open>error while creating kill query request to ..\<close>
  | ExecuteQueryError string string string  \<comment> \<open>error while executing clickhouse query ..\<close>
  | UnexpectedStatusCode string string int string  \<comment> \<open>unexpected status code returned from query ..\<close>

subsection \<open>scope\<close>

text \<open>
  A scope points to its host, cluster, user and cluster user. The record holds the
  objects it points to, and a method that changes one of them returns the scope with
  that object changed. \<^verbatim>\<open>user\<close>, \<^verbatim>\<open>clusterUser\<close> and \<^verbatim>\<open>host\<close> are three types, so the
  three counters that \<^verbatim>\<open>inc\<close> and \<^verbatim>\<open>dec\<close> touch are three objects.
\<close>

record scope =
  id_scope :: uint32
  host :: host
  cluster :: cluster
  user :: user
  clusterUser :: clusterUser

text \<open>
  \<^verbatim>\<open>newScope\<close>, with the global \<^verbatim>\<open>scopeID\<close> passed in; it returns the new
  \<^verbatim>\<open>scopeID\<close>, the cluster with its cursor moved, and the scope or the error.
\<close>

definition newScope ::
  "uint32 \<Rightarrow> user \<Rightarrow> clusterUser \<Rightarrow> cluster \<Rightarrow> (uint32 \<times> cluster \<times> (error + scope)) go option" where
  "newScope scopeID u cu c =
     (case cluster_getHost c of
        None \<Rightarrow> None
      | Some Panics \<Rightarrow> Some Panics
      | Some (Returns (c', None)) \<Rightarrow> Some (Returns (scopeID, c', Inl NoActiveHosts))
      | Some (Returns (c', Some h)) \<Rightarrow>
          Some (Returns (scopeID + 1, c',
            Inr \<lparr>id_scope = scopeID + 1, host = hosts c' ! h, cluster = c', user = u,
                 clusterUser = cu\<rparr>)))"

definition scope_dec :: "scope \<Rightarrow> scope" where
  "scope_dec s =
     (let s = s\<lparr>host := queryCounter_dec (host s)\<rparr>;
          s = s\<lparr>user := queryCounter_dec (user s)\<rparr>;
          s = s\<lparr>clusterUser := queryCounter_dec (clusterUser s)\<rparr>
      in s)"

definition scope_inc :: "scope \<Rightarrow> scope \<times> error option" where
  "scope_inc s =
     (let (u, uq) = queryCounter_inc (user s);
          s = s\<lparr>user := u\<rparr>;
          (cu, cq) = queryCounter_inc (clusterUser s);
          s = s\<lparr>clusterUser := cu\<rparr>;
          s = s\<lparr>host := fst (queryCounter_inc (host s))\<rparr>;
          err = None;
          err = (if user.maxConcurrentQueries (user s) > 0 \<and> uq > user.maxConcurrentQueries (user s)
                 then Some (UserLimitsExceeded (user.name (user s))
                        (user.maxConcurrentQueries (user s)))
                 else err);
          err = (if clusterUser.maxConcurrentQueries (clusterUser s) > 0
                    \<and> cq > clusterUser.maxConcurrentQueries (clusterUser s)
                 then Some (ClusterUserLimitsExceeded (clusterUser.name (clusterUser s))
                        (clusterUser.maxConcurrentQueries (clusterUser s)))
                 else err)
      in case err of
           Some e \<Rightarrow> (scope_dec s, Some e)
         | None \<Rightarrow> (s, None))"

subsection \<open>Formatting and the HTTP library\<close>

text \<open>
  What scope.go uses of \<^verbatim>\<open>fmt\<close>, \<^verbatim>\<open>strconv\<close>, \<^verbatim>\<open>net/url\<close> and \<^verbatim>\<open>net/http\<close>.
  \<open>decimal\<close> is the verb \<^verbatim>\<open>%d\<close> on an unsigned value.
\<close>

definition digit :: "nat \<Rightarrow> char" where
  "digit n = ''0123456789'' ! n"

fun decimal :: "nat \<Rightarrow> string" where
  "decimal n = (if n < 10 then [digit n] else decimal (n div 10) @ [digit (n mod 10)])"

declare decimal.simps [simp del]

definition Itoa :: "int \<Rightarrow> string" where
  "Itoa i = (if i < 0 then CHR ''-'' # decimal (nat (- i)) else decimal (nat i))"

text \<open>
  \<^verbatim>\<open>int(x)\<close> for a \<^verbatim>\<open>uint32\<close>, where \<^verbatim>\<open>int\<close> has 64 bits: the value is zero-extended
  and read as a signed number.
\<close>

definition int_of_uint32 :: "uint32 \<Rightarrow> int" where
  "int_of_uint32 x = sint (ucast x :: 64 word)"

text \<open>
  \<^verbatim>\<open>URL.String()\<close> of an address that consists of a scheme and a host, the form
  \<^verbatim>\<open>scheme://host[:port]\<close> of the address of a host: it has no path and no query, and
  nothing in it needs escaping. Go's \<^verbatim>\<open>String()\<close> renders a path and a query as well; what
  is proved about \<^verbatim>\<open>killQuery\<close> below is stated for addresses without them.
\<close>

definition url_String :: "url \<Rightarrow> string" where
  "url_String u =
     (if Scheme u = [] then [] else Scheme u @ '':'')
     @ (if Host u = [] then [] else ''//'' @ Host u)"

text \<open>The standard base64 encoding, with padding.\<close>

definition base64_char :: "nat \<Rightarrow> char" where
  "base64_char k =
     ''ABCDEFGHIJKLMNOPQRSTUVWXYZabcdefghijklmnopqrstuvwxyz0123456789+/'' ! k"

fun base64 :: "string \<Rightarrow> string" where
  "base64 (a # b # c # r) =
     (let n = (of_char a :: nat) * 65536 + of_char b * 256 + of_char c
      in [base64_char (n div 262144), base64_char (n div 4096 mod 64),
          base64_char (n div 64 mod 64), base64_char (n mod 64)] @ base64 r)"
| "base64 [a, b] =
     (let n = (of_char a :: nat) * 65536 + of_char b * 256
      in [base64_char (n div 262144), base64_char (n div 4096 mod 64),
          base64_char (n div 64 mod 64), CHR ''=''])"
| "base64 [a] =
     (let n = (of_char a :: nat) * 65536
      in [base64_char (n div 262144), base64_char (n div 4096 mod 64), CHR ''='', CHR ''=''])"
| "base64 [] = []"

text \<open>
  An \<^verbatim>\<open>http.Request\<close>: the header maps a name to its first value; \<open>LocalAddr\<close> is the
  value of the request context under \<^verbatim>\<open>http.LocalAddrContextKey\<close> when it is a
  \<^verbatim>\<open>net.Addr\<close>, and \<open>Timeout\<close> the timeout of the context.
\<close>

record request =
  Method :: string
  URL :: url
  Header :: "string \<rightharpoonup> string"
  Body :: string
  RemoteAddr :: string
  LocalAddr :: "string option"
  Timeout :: "Duration option"

record response =
  StatusCode :: int
  Body_response :: string  \<comment> \<open>what \<^verbatim>\<open>ioutil.ReadAll\<close> reads from the body\<close>

definition StatusOK :: int where
  "StatusOK = 200"

definition SetBasicAuth :: "request \<Rightarrow> string \<Rightarrow> string \<Rightarrow> request" where
  "SetBasicAuth req username passwd =
     req\<lparr>Header := (Header req)(''Authorization'' \<mapsto>
        ''Basic '' @ base64 (username @ '':'' @ passwd))\<rparr>"

definition UserAgent :: "request \<Rightarrow> string" where
  "UserAgent req = (case Header req ''User-Agent'' of None \<Rightarrow> [] | Some v \<Rightarrow> v)"

text \<open>
  The world outside: \<open>ParseURL\<close> is \<^verbatim>\<open>url.Parse\<close>, which \<^verbatim>\<open>http.NewRequest\<close> calls on
  the address, and \<open>ClientDo\<close> is \<^verbatim>\<open>http.DefaultClient.Do\<close>; \<open>Inl\<close> is the error.
\<close>

record http_env =
  ParseURL :: "string \<Rightarrow> string + url"
  ClientDo :: "request \<Rightarrow> string + response"

text \<open>\<^verbatim>\<open>http.NewRequest\<close>; the method \<^verbatim>\<open>POST\<close> that scope.go passes is a valid one.\<close>

definition NewRequest :: "http_env \<Rightarrow> string \<Rightarrow> string \<Rightarrow> string \<Rightarrow> string + request" where
  "NewRequest env method urlStr body =
     (case ParseURL env urlStr of
        Inl err \<Rightarrow> Inl err
      | Inr u \<Rightarrow> Inr \<lparr>Method = method, URL = u, Header = Map.empty, Body = body,
                      RemoteAddr = [], LocalAddr = None, Timeout = None\<rparr>)"

subsection \<open>killQuery\<close>

definition killQueryTimeout :: Duration where
  "killQueryTimeout = Second * 30"

text \<open>
  \<^verbatim>\<open>killQuery\<close> returns the requests it has handed to the HTTP client, in order, and
  its error (\<open>None\<close> for \<^verbatim>\<open>nil\<close>).
\<close>

definition scope_killQuery :: "http_env \<Rightarrow> scope \<Rightarrow> request list \<times> error option" where
  "scope_killQuery env s =
     (if length (killQueryUserName (cluster s)) = 0 then ([], None)
      else
        (let query = ''KILL QUERY WHERE query_id = '' @ [CHR 0x27]
                       @ decimal (unat (id_scope s)) @ [CHR 0x27];
             addr = url_String (addr (host s))
         in case NewRequest env ''POST'' addr query of
              Inl err \<Rightarrow> ([], Some (CreateRequestError addr err))
            | Inr req \<Rightarrow>
                (let req = req\<lparr>Timeout := Some killQueryTimeout\<rparr>;
                     req = SetBasicAuth req (killQueryUserName (cluster s))
                             (killQueryUserPassword (cluster s))
                 in case ClientDo env req of
                      Inl err \<Rightarrow> ([req], Some (ExecuteQueryError query addr err))
                    | Inr resp \<Rightarrow>
                        if StatusCode resp \<noteq> StatusOK then
                          ([req], Some (UnexpectedStatusCode query addr (StatusCode resp)
                                          (Body_response resp)))
                        else ([req], None))))"

subsection \<open>decorateRequest\<close>

text \<open>
  \<^verbatim>\<open>decorateRequest\<close> returns the request and the values that it prints to the
  standard output.
\<close>

definition scope_decorateRequest :: "scope \<Rightarrow> request \<Rightarrow> request \<times> Values" where
  "scope_decorateRequest s req =
     (let params = Map.empty;
          params = Values_Set params ''query_id'' (Itoa (int_of_uint32 (id_scope s)));
          q = Values_Get (Query_url (URL req)) ''query'';
          params = (if length q > 0 then Values_Set params ''query'' q else params);
          req = req\<lparr>URL := (URL req)\<lparr>Query_url := params\<rparr>\<rparr>;
          req = SetBasicAuth req (clusterUser.name (clusterUser s))
                  (clusterUser.password (clusterUser s));
          req = req\<lparr>URL := (URL req)\<lparr>Scheme := Scheme (addr (host s))\<rparr>\<rparr>;
          req = req\<lparr>URL := (URL req)\<lparr>Host := Host (addr (host s))\<rparr>\<rparr>;
          localAddr = (case LocalAddr req of Some a \<Rightarrow> a | None \<Rightarrow> ''unknown'');
          ua = ''RemoteAddr: '' @ RemoteAddr req @ ''; LocalAddr: '' @ localAddr
               @ ''; CHProxy-User: '' @ user.name (user s)
               @ ''; CHProxy-ClusterUser: '' @ clusterUser.name (clusterUser s)
               @ ''; '' @ UserAgent req;
          req = req\<lparr>Header := (Header req)(''User-Agent'' \<mapsto> ua)\<rparr>
      in (req, Query_url (URL req)))"

subsection \<open>Penalties and their timers\<close>

text \<open>
  A host with the timers that \<^verbatim>\<open>penalize\<close> has started: \<open>now\<close> is the clock in
  nanoseconds, \<open>pending\<close> holds the time at which each timer that has not yet run is
  due, \<open>hostPenalties\<close> is the metric of that name.
\<close>

record penalized =
  subject :: host
  now :: nat
  pending :: "nat list"
  hostPenalties :: nat

text \<open>
  What can happen to the host: a call of \<^verbatim>\<open>penalize\<close>, the run of the \<open>k\<close>-th pending
  timer, which must be due, and the passing of time.
\<close>

datatype event = Penalize | Fire nat | Sleep nat

fun step :: "penalized \<Rightarrow> event \<Rightarrow> penalized option" where
  "step w Penalize =
     (case host_penalize (subject w) of
        (h, delays, m) \<Rightarrow>
          Some (w\<lparr>subject := h,
                  pending := pending w @ map (\<lambda>d. now w + unat d) delays,
                  hostPenalties := hostPenalties w + m\<rparr>))"
| "step w (Fire k) =
     (if k < length (pending w) \<and> pending w ! k \<le> now w
      then Some (w\<lparr>subject := penalize_decay (subject w),
                    pending := take k (pending w) @ drop (Suc k) (pending w)\<rparr>)
      else None)"
| "step w (Sleep d) = Some (w\<lparr>now := now w + d\<rparr>)"

fun run :: "penalized \<Rightarrow> event list \<Rightarrow> penalized option" where
  "run w [] = Some w"
| "run w (e # es) = (case step w e of None \<Rightarrow> None | Some w' \<Rightarrow> run w' es)"

subsection \<open>Notions for stating the properties\<close>


text \<open>The number of rounds that the loop of \<^verbatim>\<open>getHost\<close> still has to make at index \<open>i\<close>.\<close>

definition steps_left :: "uint32 \<Rightarrow> uint32 \<Rightarrow> uint32 \<Rightarrow> nat" where
  "steps_left l idx i =
     (if unat i \<le> unat idx then unat idx - unat i else unat idx + unat l - unat i)"



text \<open>
  What holds of a host and its timers at all times: at most 60 timers are pending, the
  penalty is 5 for each of them, and each is due within \<^verbatim>\<open>penaltyDuration\<close>.
\<close>

definition penalty_inv :: "penalized \<Rightarrow> bool" where
  "penalty_inv w =
     (length (pending w) \<le> 60
      \<and> penalty (subject w) = 5 * word_of_nat (length (pending w))
      \<and> list_all (\<lambda>d. d \<le> now w + unat penaltyDuration) (pending w))"

text \<open>Hosts and clusters for the examples: a host is given by its flag, counter and name.\<close>

definition exHost :: "uint32 \<Rightarrow> uint32 \<Rightarrow> string \<Rightarrow> host" where
  "exHost a n h = \<lparr>value = n, penalty = 0, active = a,
      addr = \<lparr>Scheme = ''http'', Host = h, Path = [], Query_url = Map.empty\<rparr>\<rparr>"

definition exCluster :: "uint32 \<Rightarrow> host list \<Rightarrow> cluster" where
  "exCluster k hs = \<lparr>nextIdx = k, hosts = hs, users = Map.empty, killQueryUserName = [],
      killQueryUserPassword = [], heartBeatInterval = Second * 5\<rparr>"

text \<open>
  A user and a cluster user are given by their limit and their counter; a scope by its
  id, its two users and the name of the cluster's cancellation user. The scope's host is
  \<^verbatim>\<open>http://h1:8123\<close>.
\<close>

definition exUser :: "uint32 \<Rightarrow> uint32 \<Rightarrow> user" where
  "exUser m n = \<lparr>value = n, toUser = [], toCluster = [], denyHTTP = False, denyHTTPS = False,
      allowedNetworks = [], name = ''web'', password = ''secret'', maxExecutionTime = 0,
      maxConcurrentQueries = m\<rparr>"

definition exClusterUser :: "uint32 \<Rightarrow> uint32 \<Rightarrow> clusterUser" where
  "exClusterUser m n = \<lparr>value = n, clusterUser.name = ''default'',
      clusterUser.password = ''pw'', clusterUser.maxExecutionTime = 0,
      clusterUser.maxConcurrentQueries = m\<rparr>"

definition exScope :: "uint32 \<Rightarrow> user \<Rightarrow> clusterUser \<Rightarrow> string \<Rightarrow> scope" where
  "exScope i u cu k = \<lparr>id_scope = i, host = exHost 1 0 ''h1:8123'',
      cluster = (exCluster 0 [exHost 1 0 ''h1:8123''])
                  \<lparr>killQueryUserName := k, killQueryUserPassword := ''kpw''\<rparr>,
      user = u, clusterUser = cu\<rparr>"

text \<open>
  An HTTP library that parses the address of that host, and a backend that answers every
  request with the given status.
\<close>

definition exEnv :: "int \<Rightarrow> http_env" where
  "exEnv code =
     \<lparr>ParseURL = (\<lambda>a. if a = ''http://h1:8123''
                       then Inr \<lparr>Scheme = ''http'', Host = ''h1:8123'', Path = [],
                                  Query_url = Map.empty\<rparr>
                       else Inl ''parse error''),
      ClientDo = (\<lambda>r. Inr \<lparr>StatusCode = code, Body_response = ''answer''\<rparr>)\<rparr>"

text \<open>An inbound request \<^verbatim>\<open>http://in/\<close> with the given query parameters.\<close>

definition exRequest :: "Values \<Rightarrow> request" where
  "exRequest v = \<lparr>Method = ''GET'',
      URL = \<lparr>Scheme = ''http'', Host = ''in'', Path = ''/'', Query_url = v\<rparr>,
      Header = [''User-Agent'' \<mapsto> ''curl''], Body = [], RemoteAddr = ''10.0.0.1:5555'',
      LocalAddr = None, Timeout = None\<rparr>"

section \<open>Unfolding the examples\<close>

lemmas ex_defs = exEnv_def exScope_def exHost_def exCluster_def exUser_def exClusterUser_def
  exRequest_def

lemma decimal_7: "decimal 7 = ''7''"
  by (simp add: decimal.simps digit_def)

section \<open>The counters\<close>

text \<open>
  C10. The counters use wrapping 32-bit arithmetic: \<open>inc\<close> stores and returns
  \<open>(v + 1) mod 2^32\<close>, \<open>dec\<close> after \<open>inc\<close> restores \<open>v\<close>, and \<open>dec\<close> on a counter
  that holds 0 leaves it at \<open>2^32 - 1\<close>. Neither operation has a failing branch.
\<close>

theorem queryCounter_wraps:
  "snd (queryCounter_inc qc) = value qc + 1
   \<and> unat (snd (queryCounter_inc qc)) = (unat (value qc) + 1) mod 2 ^ 32
   \<and> value (fst (queryCounter_inc qc)) = snd (queryCounter_inc qc)
   \<and> value (queryCounter_dec (fst (queryCounter_inc qc))) = value qc
   \<and> queryCounter_dec (fst (queryCounter_inc qc)) = qc
   \<and> unat (value (queryCounter_dec (qc\<lparr>value := 0\<rparr>))) = 2 ^ 32 - 1"
  by (simp add: queryCounter_inc_def queryCounter_dec_def unat_word_ariths
      unsigned_minus_1_eq_mask mask_eq_exp_minus_1)

section \<open>The selection of a host\<close>

lemma umod_Returns: "l \<noteq> 0 \<Longrightarrow> umod a l = Returns (a mod l)"
  by (simp add: umod_def)

lemma unat_next_index:
  fixes i l :: uint32
  assumes "i < l"
  shows "unat ((i + 1) mod l) = (if unat i + 1 < unat l then unat i + 1 else 0)"
proof -
  have il: "unat i < unat l" using assms by (simp add: word_less_nat_alt)
  have "unat l < 2 ^ 32" using unsigned_less [of l] by simp
  with il have "unat i + 1 < 2 ^ 32" by simp
  then have "unat (i + 1) = unat i + 1"
    by (simp add: unat_word_ariths)
  then have "unat ((i + 1) mod l) = (unat i + 1) mod unat l"
    by (simp add: unat_mod)
  with il show ?thesis by (auto simp: mod_if)
qed

lemma next_index_less:
  fixes i l :: uint32
  shows "l \<noteq> 0 \<Longrightarrow> (i + 1) mod l < l"
  by (simp add: word_mod_less_divisor word_greater_zero_iff)

lemma steps_left_next:
  fixes i l idx :: uint32
  assumes "i < l" "idx < l" "i \<noteq> idx"
  shows "steps_left l idx ((i + 1) mod l) < steps_left l idx i"
proof -
  have "unat i < unat l" "unat idx < unat l" using assms by (simp_all add: word_less_nat_alt)
  moreover have "unat i \<noteq> unat idx" using assms by (simp add: word_unat_eq_iff)
  ultimately show ?thesis
    by (auto simp: steps_left_def unat_next_index [OF assms(1)] split: if_splits)
qed

lemma getHost_loop_sound:
  fixes l idx :: uint32
  assumes l: "l \<noteq> 0" and len: "unat l \<le> length hs" and idx: "idx < l"
  shows "i < l \<Longrightarrow> idle < length hs \<Longrightarrow>
         \<exists>res. getHost_loop hs l idx i idle idleN = Some (Returns res)
           \<and> (case res of None \<Rightarrow> True | Some r \<Rightarrow> r < length hs \<and> host_isActive (hs ! r))"
proof (induction "steps_left l idx i" arbitrary: i idle idleN rule: less_induct)
  case less
  show ?case
  proof (cases "i = idx")
    case True
    then show ?thesis using less.prems
      by (subst getHost_loop.simps) simp
  next
    case False
    let ?i' = "(i + 1) mod l"
    have i: "unat i < length hs"
      using less.prems(1) len by (simp add: word_less_nat_alt)
    have dec: "steps_left l idx ?i' < steps_left l idx i"
      using steps_left_next [OF less.prems(1) idx False] .
    have i': "?i' < l" using l by (rule next_index_less)
    have IH: "\<And>idle idleN. idle < length hs \<Longrightarrow>
         \<exists>res. getHost_loop hs l idx ?i' idle idleN = Some (Returns res)
           \<and> (case res of None \<Rightarrow> True | Some r \<Rightarrow> r < length hs \<and> host_isActive (hs ! r))"
      using less.hyps [OF dec i'] .
    show ?thesis
      using False i IH [OF less.prems(2)] IH [OF i]
      by (subst getHost_loop.simps) (simp add: umod_Returns [OF l] Let_def)
  qed
qed







lemma hosts_length_word:
  fixes l :: uint32
  assumes "l = word_of_nat n"
  shows "unat l \<le> n" and "n < 2 ^ 32 \<Longrightarrow> unat l = n"
  using assms by (simp_all add: unat_of_nat mod_le_divisor)

lemma cluster_getHost_panics:
  "(word_of_nat (length (hosts c)) :: uint32) = 0 \<Longrightarrow> cluster_getHost c = Some Panics"
  by (simp add: cluster_getHost_def umod_def)

lemma cluster_getHost_returns:
  assumes l: "(word_of_nat (length (hosts c)) :: uint32) \<noteq> 0"
  shows "\<exists>res. cluster_getHost c = Some (Returns (c\<lparr>nextIdx := nextIdx c + 1\<rparr>, res))
           \<and> (case res of None \<Rightarrow> True
               | Some r \<Rightarrow> r < length (hosts c) \<and> host_isActive (hosts c ! r))"
proof -
  let ?l = "word_of_nat (length (hosts c)) :: uint32"
  let ?idx = "(nextIdx c + 1) mod ?l"
  have len: "unat ?l \<le> length (hosts c)" by (rule hosts_length_word(1)) simp
  have idx: "?idx < ?l" using l by (simp add: word_mod_less_divisor word_greater_zero_iff)
  then have s: "unat ?idx < length (hosts c)" using len by (simp add: word_less_nat_alt)
  have i: "(?idx + 1) mod ?l < ?l" using l by (rule next_index_less)
  from getHost_loop_sound [OF l len idx i s]
  obtain res where res: "getHost_loop (hosts c) ?l ?idx ((?idx + 1) mod ?l) (unat ?idx)
       (host_runningQueries (hosts c ! unat ?idx)) = Some (Returns res)"
    "case res of None \<Rightarrow> True | Some r \<Rightarrow> r < length (hosts c) \<and> host_isActive (hosts c ! r)"
    by blast
  show ?thesis
    using s res by (auto simp: cluster_getHost_def umod_Returns [OF l] Let_def)
qed

text \<open>
  C6. Whenever \<^verbatim>\<open>getHost\<close> returns a host, that host is a host of the cluster and is
  active. (Nothing changes the hosts between the last check and the return.)
\<close>

theorem getHost_returns_active:
  "cluster_getHost c = Some (Returns (c', Some r)) \<Longrightarrow>
     r < length (hosts c) \<and> host_isActive (hosts c ! r)"
proof (cases "(word_of_nat (length (hosts c)) :: uint32) = 0")
  case True
  assume "cluster_getHost c = Some (Returns (c', Some r))"
  then show ?thesis using cluster_getHost_panics [OF True] by simp
next
  case False
  assume "cluster_getHost c = Some (Returns (c', Some r))"
  then show ?thesis using cluster_getHost_returns [OF False] by auto
qed

text \<open>Hosts \<open>[A, B]\<close>, \<open>A\<close> inactive and \<open>B\<close> active and idle, the scan starting at \<open>A\<close>:
  the call returns \<open>B\<close>.\<close>

theorem getHost_returns_active_witness:
  "cluster_getHost (exCluster 1 [exHost 0 0 ''A'', exHost 1 0 ''B''])
     = Some (Returns (exCluster 2 [exHost 0 0 ''A'', exHost 1 0 ''B''], Some 1))
   \<and> 1 < length (hosts (exCluster 1 [exHost 0 0 ''A'', exHost 1 0 ''B'']))
   \<and> host_isActive (hosts (exCluster 1 [exHost 0 0 ''A'', exHost 1 0 ''B'']) ! 1)"
proof -
  have "cluster_getHost (exCluster 1 [exHost 0 0 ''A'', exHost 1 0 ''B''])
     = Some (Returns (exCluster 2 [exHost 0 0 ''A'', exHost 1 0 ''B''], Some 1))"
    by (simp add: cluster_getHost_def getHost_loop.simps umod_def Let_def exCluster_def
        exHost_def host_isActive_def host_runningQueries_def queryCounter_runningQueries_def)
  from this getHost_returns_active [OF this] show ?thesis by simp
qed

lemma cluster_getHost_total: "cluster_getHost c \<noteq> None"
  using cluster_getHost_panics [of c] cluster_getHost_returns [of c] by fastforce

text \<open>
  C7. Hosts \<open>[A, B, C]\<close>, all active and without running queries, cursor at 0: four
  calls of \<^verbatim>\<open>getHost\<close> in a row return \<open>B, C, A, B\<close> (positions 1, 2, 0, 1), each
  the host at the cursor that the call has just moved.
\<close>

theorem getHost_round_robin:
  assumes "hosts c = [A, B, C]" "nextIdx c = 0"
    and "\<forall>h \<in> set (hosts c). host_isActive h \<and> host_runningQueries h = 0"
  shows "cluster_getHost c = Some (Returns (c\<lparr>nextIdx := 1\<rparr>, Some 1))
       \<and> cluster_getHost (c\<lparr>nextIdx := 1\<rparr>) = Some (Returns (c\<lparr>nextIdx := 2\<rparr>, Some 2))
       \<and> cluster_getHost (c\<lparr>nextIdx := 2\<rparr>) = Some (Returns (c\<lparr>nextIdx := 3\<rparr>, Some 0))
       \<and> cluster_getHost (c\<lparr>nextIdx := 3\<rparr>) = Some (Returns (c\<lparr>nextIdx := 4\<rparr>, Some 1))"
  using assms by (simp add: cluster_getHost_def umod_def Let_def)

text \<open>The four calls on three idle hosts named A, B and C.\<close>

theorem getHost_round_robin_witness:
  "(let c = exCluster 0 [exHost 1 0 ''A'', exHost 1 0 ''B'', exHost 1 0 ''C''] in
     (case cluster_getHost c of Some (Returns (c1, Some r1)) \<Rightarrow>
        Host (addr (hosts c ! r1)) = ''B'' \<and> 
        (case cluster_getHost c1 of Some (Returns (c2, Some r2)) \<Rightarrow>
          Host (addr (hosts c ! r2)) = ''C'' \<and> 
         (case cluster_getHost c2 of Some (Returns (c3, Some r3)) \<Rightarrow>
          Host (addr (hosts c ! r3)) = ''A'' \<and> 
           (case cluster_getHost c3 of Some (Returns (c4, Some r4)) \<Rightarrow>
            Host (addr (hosts c ! r4)) = ''B'' | _ \<Rightarrow> False)| _ \<Rightarrow> False) | _ \<Rightarrow> False) | _ \<Rightarrow> False))"
  using getHost_round_robin [of "exCluster 0 [exHost 1 0 ''A'', exHost 1 0 ''B'', exHost 1 0 ''C'']"
      "exHost 1 0 ''A''" "exHost 1 0 ''B''" "exHost 1 0 ''C''"]
  by (simp add: exCluster_def exHost_def host_isActive_def host_runningQueries_def
      queryCounter_runningQueries_def)

text \<open>
  C1. \<^verbatim>\<open>getHost\<close> should return \<^verbatim>\<open>nil\<close> only when every host is inactive. It does not:
  with hosts \<open>[A, B]\<close>, \<open>A\<close> inactive without running queries, \<open>B\<close> active with one
  running query, and the scan starting at \<open>A\<close>, the load of \<open>A\<close> stays the least load
  seen, \<open>A\<close> stays the candidate, and the call returns \<^verbatim>\<open>nil\<close>.
\<close>

theorem getHost_misses_active_host:
  "cluster_getHost (exCluster 1 [exHost 0 0 ''A'', exHost 1 1 ''B''])
     = Some (Returns (exCluster 2 [exHost 0 0 ''A'', exHost 1 1 ''B''], None))
   \<and> host_isActive (exHost 1 1 ''B'')"
  by (simp add: cluster_getHost_def getHost_loop.simps umod_def Let_def exCluster_def exHost_def
      host_isActive_def host_runningQueries_def queryCounter_runningQueries_def)





section \<open>Admission\<close>

lemma scope_inc_cases:
  "scope_inc s =
     (if (user.maxConcurrentQueries (user s) > 0
            \<and> value (user s) + 1 > user.maxConcurrentQueries (user s))
         \<or> (clusterUser.maxConcurrentQueries (clusterUser s) > 0
            \<and> value (clusterUser s) + 1 > clusterUser.maxConcurrentQueries (clusterUser s))
      then (s, Some (if clusterUser.maxConcurrentQueries (clusterUser s) > 0
                        \<and> value (clusterUser s) + 1
                            > clusterUser.maxConcurrentQueries (clusterUser s)
                     then ClusterUserLimitsExceeded (clusterUser.name (clusterUser s))
                            (clusterUser.maxConcurrentQueries (clusterUser s))
                     else UserLimitsExceeded (user.name (user s))
                            (user.maxConcurrentQueries (user s))))
      else (s\<lparr>user := (user s)\<lparr>value := value (user s) + 1\<rparr>,
              clusterUser := (clusterUser s)\<lparr>value := value (clusterUser s) + 1\<rparr>,
              host := (host s)\<lparr>value := value (host s) + 1\<rparr>\<rparr>, None))"
  by (simp add: scope_inc_def scope_dec_def queryCounter_inc_def queryCounter_dec_def Let_def)

text \<open>
  C4. \<^verbatim>\<open>inc\<close> returns an error exactly when the user has a limit and the user's counter
  after the increment is above it, or the cluster user has a limit and the cluster user's
  counter after the increment is above it. When it returns an error the counters of the
  user, the cluster user and the host are what they were before the call (the scope is
  unchanged); when it returns no error each of the three is one greater, in the
  counter's 32-bit arithmetic.
\<close>

theorem scope_inc_admits:
  "(snd (scope_inc s) \<noteq> None) =
     ((user.maxConcurrentQueries (user s) > 0
         \<and> value (user s) + 1 > user.maxConcurrentQueries (user s))
      \<or> (clusterUser.maxConcurrentQueries (clusterUser s) > 0
         \<and> value (clusterUser s) + 1 > clusterUser.maxConcurrentQueries (clusterUser s)))
   \<and> (snd (scope_inc s) \<noteq> None \<longrightarrow>
         value (user (fst (scope_inc s))) = value (user s)
         \<and> value (clusterUser (fst (scope_inc s))) = value (clusterUser s)
         \<and> value (host (fst (scope_inc s))) = value (host s)
         \<and> fst (scope_inc s) = s)
   \<and> (snd (scope_inc s) = None \<longrightarrow>
         value (user (fst (scope_inc s))) = value (user s) + 1
         \<and> value (clusterUser (fst (scope_inc s))) = value (clusterUser s) + 1
         \<and> value (host (fst (scope_inc s))) = value (host s) + 1)"
  by (simp add: scope_inc_cases)

text \<open>
  A user with limit 2: with two running queries the call is refused and the counters stay
  at 2, 5 and 0; with one running query it is admitted and they become 2, 6 and 1.
\<close>

theorem scope_inc_admits_witness:
  "snd (scope_inc (exScope 7 (exUser 2 2) (exClusterUser 0 5) [])) \<noteq> None
   \<and> value (user (fst (scope_inc (exScope 7 (exUser 2 2) (exClusterUser 0 5) [])))) = 2
   \<and> value (clusterUser (fst (scope_inc (exScope 7 (exUser 2 2) (exClusterUser 0 5) [])))) = 5
   \<and> value (host (fst (scope_inc (exScope 7 (exUser 2 2) (exClusterUser 0 5) [])))) = 0
   \<and> snd (scope_inc (exScope 7 (exUser 2 1) (exClusterUser 0 5) [])) = None
   \<and> value (user (fst (scope_inc (exScope 7 (exUser 2 1) (exClusterUser 0 5) [])))) = 2
   \<and> value (clusterUser (fst (scope_inc (exScope 7 (exUser 2 1) (exClusterUser 0 5) [])))) = 6
   \<and> value (host (fst (scope_inc (exScope 7 (exUser 2 1) (exClusterUser 0 5) [])))) = 1"
proof -
  let ?full = "exScope 7 (exUser 2 2) (exClusterUser 0 5) []"
  let ?free = "exScope 7 (exUser 2 1) (exClusterUser 0 5) []"
  have full: "user.maxConcurrentQueries (user ?full) > 0
      \<and> value (user ?full) + 1 > user.maxConcurrentQueries (user ?full)"
    by (simp add: ex_defs word_less_nat_alt)
  have free: "\<not> (user.maxConcurrentQueries (user ?free) > 0
      \<and> value (user ?free) + 1 > user.maxConcurrentQueries (user ?free))"
    "\<not> clusterUser.maxConcurrentQueries (clusterUser ?free) > 0"
    by (simp_all add: ex_defs word_less_nat_alt)
  have vals: "value (user ?full) = 2" "value (clusterUser ?full) = 5" "value (host ?full) = 0"
    "value (user ?free) = 1" "value (clusterUser ?free) = 5" "value (host ?free) = 0"
    by (simp_all add: ex_defs)
  from scope_inc_admits [of ?full] full have "snd (scope_inc ?full) \<noteq> None" by blast
  moreover from scope_inc_admits [of ?free] free have "snd (scope_inc ?free) = None" by blast
  ultimately show ?thesis
    using scope_inc_admits [of ?full] scope_inc_admits [of ?free] vals by simp
qed

section \<open>Cancellation\<close>

lemma killQuery_disabled:
  "killQueryUserName (cluster s) = [] \<Longrightarrow> scope_killQuery env s = ([], None)"
  by (simp add: scope_killQuery_def)

lemma killQuery_request:
  assumes "killQueryUserName (cluster s) \<noteq> []"
    and "ParseURL env (url_String (addr (host s))) = Inr u"
  shows "fst (scope_killQuery env s) =
      [\<lparr>Method = ''POST'', URL = u,
        Header = [''Authorization'' \<mapsto> ''Basic '' @ base64 (killQueryUserName (cluster s)
                     @ '':'' @ killQueryUserPassword (cluster s))],
        Body = ''KILL QUERY WHERE query_id = '' @ [CHR 0x27] @ decimal (unat (id_scope s))
                 @ [CHR 0x27],
        RemoteAddr = [], LocalAddr = None, Timeout = Some (Second * 30)\<rparr>]"
  using assms
  by (simp add: scope_killQuery_def NewRequest_def SetBasicAuth_def killQueryTimeout_def Let_def
      split: sum.splits)

text \<open>
  C9. Without a cancellation user \<^verbatim>\<open>killQuery\<close> returns \<^verbatim>\<open>nil\<close> and hands no request to
  the client. With one, for a host whose address is a scheme and a host (no path, no
  query), and when \<^verbatim>\<open>http.NewRequest\<close> accepts that address, it hands exactly one request
  to the client: a \<^verbatim>\<open>POST\<close> to that address, the body
  \<^verbatim>\<open>KILL QUERY WHERE query_id = '<id>'\<close> with the id in decimal, Basic authorization of
  the cancellation user and its password, and the timeout of 30 seconds.
\<close>

theorem killQuery_composes:
  "(killQueryUserName (cluster s) = [] \<longrightarrow> scope_killQuery env s = ([], None))
   \<and> (killQueryUserName (cluster s) \<noteq> []
        \<and> Path (addr (host s)) = [] \<and> Query_url (addr (host s)) = Map.empty
        \<and> ParseURL env (url_String (addr (host s))) = Inr u \<longrightarrow>
      fst (scope_killQuery env s) =
        [\<lparr>Method = ''POST'', URL = u,
          Header = [''Authorization'' \<mapsto>
                      ''Basic '' @ base64 (killQueryUserName (cluster s) @ '':''
                                            @ killQueryUserPassword (cluster s))],
          Body = ''KILL QUERY WHERE query_id = '' @ [CHR 0x27] @ decimal (unat (id_scope s))
                   @ [CHR 0x27],
          RemoteAddr = [], LocalAddr = None, Timeout = Some (Second * 30)\<rparr>])"
  using killQuery_disabled [of s env] killQuery_request [of s env u] by blast

text \<open>
  Scope 7 on host \<^verbatim>\<open>http://h1:8123\<close>: no request without a cancellation user; with the
  user \<^verbatim>\<open>admin\<close> the request is a \<^verbatim>\<open>POST\<close> to that host with the body
  \<^verbatim>\<open>KILL QUERY WHERE query_id = '7'\<close>.
\<close>

theorem killQuery_composes_witness:
  "killQueryUserName (cluster (exScope 7 (exUser 0 0) (exClusterUser 0 0) [])) = []
   \<and> scope_killQuery (exEnv 200) (exScope 7 (exUser 0 0) (exClusterUser 0 0) []) = ([], None)
   \<and> killQueryUserName (cluster (exScope 7 (exUser 0 0) (exClusterUser 0 0) ''admin'')) \<noteq> []
   \<and> Path (addr (host (exScope 7 (exUser 0 0) (exClusterUser 0 0) ''admin''))) = []
   \<and> Query_url (addr (host (exScope 7 (exUser 0 0) (exClusterUser 0 0) ''admin''))) = Map.empty
   \<and> url_String (addr (host (exScope 7 (exUser 0 0) (exClusterUser 0 0) ''admin'')))
        = ''http://h1:8123''
   \<and> fst (scope_killQuery (exEnv 200) (exScope 7 (exUser 0 0) (exClusterUser 0 0) ''admin''))
       = [\<lparr>Method = ''POST'',
           URL = \<lparr>Scheme = ''http'', Host = ''h1:8123'', Path = [], Query_url = Map.empty\<rparr>,
           Header = [''Authorization'' \<mapsto> ''Basic YWRtaW46a3B3''],
           Body = ''KILL QUERY WHERE query_id = '' @ [CHR 0x27] @ ''7'' @ [CHR 0x27],
           RemoteAddr = [], LocalAddr = None, Timeout = Some 30000000000\<rparr>]"
proof -
  let ?off = "exScope 7 (exUser 0 0) (exClusterUser 0 0) []"
  let ?on = "exScope 7 (exUser 0 0) (exClusterUser 0 0) ''admin''"
  let ?u = "\<lparr>Scheme = ''http'', Host = ''h1:8123'', Path = [], Query_url = Map.empty\<rparr>"
  have off: "killQueryUserName (cluster ?off) = []" by (simp add: ex_defs)
  have on: "killQueryUserName (cluster ?on) \<noteq> []
      \<and> Path (addr (host ?on)) = [] \<and> Query_url (addr (host ?on)) = Map.empty
      \<and> ParseURL (exEnv 200) (url_String (addr (host ?on))) = Inr ?u"
    by (simp add: ex_defs url_String_def)
  have a: "url_String (addr (host ?on)) = ''http://h1:8123''"
    by (simp add: ex_defs url_String_def)
  have b: "''Basic '' @ base64 (killQueryUserName (cluster ?on) @ '':''
              @ killQueryUserPassword (cluster ?on)) = ''Basic YWRtaW46a3B3''"
    "decimal (unat (id_scope ?on)) = ''7''" "Second * 30 = (30000000000 :: Duration)"
    by (simp_all add: ex_defs base64_char_def decimal_7 Second_def)
  from killQuery_composes [of ?off "exEnv 200", THEN conjunct1, rule_format, OF off]
    killQuery_composes [of ?on "exEnv 200" ?u, THEN conjunct2, rule_format, OF on]
  show ?thesis unfolding b using off on a by simp
qed

text \<open>
  C2, as the code has it. For a host whose address is a scheme and a host (no path, no
  query): when \<^verbatim>\<open>killQuery\<close> has handed its request to the client and the client has
  returned a response, \<^verbatim>\<open>killQuery\<close> returns \<^verbatim>\<open>nil\<close> exactly when the status of the
  response is 200, and the error about the unexpected status code, with the status and
  the body of the response, exactly when the status is not 200. A request is handed to
  the client only when a cancellation user is configured.
\<close>

theorem killQuery_status:
  "Path (addr (host s)) = [] \<Longrightarrow> Query_url (addr (host s)) = Map.empty \<Longrightarrow>
   fst (scope_killQuery env s) = [r] \<Longrightarrow> ClientDo env r = Inr resp \<Longrightarrow>
     (snd (scope_killQuery env s) = None) = (StatusCode resp = 200)
     \<and> (snd (scope_killQuery env s)
          = Some (UnexpectedStatusCode
                    (''KILL QUERY WHERE query_id = '' @ [CHR 0x27] @ decimal (unat (id_scope s))
                       @ [CHR 0x27])
                    (url_String (addr (host s))) (StatusCode resp) (Body_response resp)))
       = (StatusCode resp \<noteq> 200)
     \<and> killQueryUserName (cluster s) \<noteq> []"
  by (auto simp: scope_killQuery_def Let_def StatusOK_def split: sum.splits if_splits)

lemma ex_kill:
  "scope_killQuery (exEnv code) (exScope 7 (exUser 0 0) (exClusterUser 0 0) ''admin'')
    = ([\<lparr>Method = ''POST'',
          URL = \<lparr>Scheme = ''http'', Host = ''h1:8123'', Path = [], Query_url = Map.empty\<rparr>,
          Header = [''Authorization'' \<mapsto> ''Basic YWRtaW46a3B3''],
          Body = ''KILL QUERY WHERE query_id = '' @ [CHR 0x27] @ ''7'' @ [CHR 0x27],
          RemoteAddr = [], LocalAddr = None, Timeout = Some 30000000000\<rparr>],
       if code \<noteq> 200
       then Some (UnexpectedStatusCode
              (''KILL QUERY WHERE query_id = '' @ [CHR 0x27] @ ''7'' @ [CHR 0x27])
              ''http://h1:8123'' code ''answer'')
       else None)"
  by (simp add: scope_killQuery_def ex_defs NewRequest_def url_String_def SetBasicAuth_def Let_def
      decimal_7 StatusOK_def killQueryTimeout_def Second_def base64_char_def)

text \<open>
  A backend that answers 200 and one that answers 500.
\<close>

theorem killQuery_status_witness:
  "Path (addr (host (exScope 7 (exUser 0 0) (exClusterUser 0 0) ''admin''))) = []
   \<and> Query_url (addr (host (exScope 7 (exUser 0 0) (exClusterUser 0 0) ''admin''))) = Map.empty
   \<and> snd (scope_killQuery (exEnv 200) (exScope 7 (exUser 0 0) (exClusterUser 0 0) ''admin'')) = None
   \<and> snd (scope_killQuery (exEnv 500) (exScope 7 (exUser 0 0) (exClusterUser 0 0) ''admin''))
       = Some (UnexpectedStatusCode
                 (''KILL QUERY WHERE query_id = '' @ [CHR 0x27] @ ''7'' @ [CHR 0x27])
                 ''http://h1:8123'' 500 ''answer'')"
proof -
  let ?s = "exScope 7 (exUser 0 0) (exClusterUser 0 0) ''admin''"
  let ?r = "\<lparr>Method = ''POST'',
          URL = \<lparr>Scheme = ''http'', Host = ''h1:8123'', Path = [], Query_url = Map.empty\<rparr>,
          Header = [''Authorization'' \<mapsto> ''Basic YWRtaW46a3B3''],
          Body = ''KILL QUERY WHERE query_id = '' @ [CHR 0x27] @ ''7'' @ [CHR 0x27],
          RemoteAddr = [], LocalAddr = None, Timeout = Some (30000000000 :: Duration)\<rparr>"
  have issued: "fst (scope_killQuery (exEnv code) ?s) = [?r]" for code
    by (simp add: ex_kill)
  have answer: "ClientDo (exEnv code) ?r = Inr \<lparr>StatusCode = code, Body_response = ''answer''\<rparr>"
    for code by (simp add: exEnv_def)
  have s: "decimal (unat (id_scope ?s)) = ''7''" "url_String (addr (host ?s)) = ''http://h1:8123''"
    by (simp_all add: ex_defs decimal_7 url_String_def)
  have plain: "Path (addr (host ?s)) = []" "Query_url (addr (host ?s)) = Map.empty"
    by (simp_all add: ex_defs)
  from killQuery_status [OF plain issued answer, of 200]
    killQuery_status [OF plain issued answer, of 500]
  show ?thesis unfolding s using plain by simp
qed

lemma ex_kill_204:
  "scope_killQuery (exEnv 204) (exScope 7 (exUser 0 0) (exClusterUser 0 0) ''admin'')
    = ([\<lparr>Method = ''POST'',
          URL = \<lparr>Scheme = ''http'', Host = ''h1:8123'', Path = [], Query_url = Map.empty\<rparr>,
          Header = [''Authorization'' \<mapsto> ''Basic YWRtaW46a3B3''],
          Body = ''KILL QUERY WHERE query_id = '' @ [CHR 0x27] @ ''7'' @ [CHR 0x27],
          RemoteAddr = [], LocalAddr = None, Timeout = Some 30000000000\<rparr>],
       Some (UnexpectedStatusCode (''KILL QUERY WHERE query_id = '' @ [CHR 0x27] @ ''7'' @ [CHR 0x27])
          ''http://h1:8123'' 204 ''answer''))"
  by (simp add: scope_killQuery_def ex_defs NewRequest_def url_String_def SetBasicAuth_def Let_def
      decimal_7 StatusOK_def killQueryTimeout_def Second_def base64_char_def)

text \<open>
  C2, as the claim has it, fails: 204 is a status of the class 2xx, and on the response
  204 \<^verbatim>\<open>killQuery\<close> returns the error about the unexpected status code. The scope has
  a cancellation user, and the address of its host is \<^verbatim>\<open>http://h1:8123\<close>, without path
  and query.
\<close>

theorem killQuery_2xx_counterexample:
  "(200 :: int) \<le> 204 \<and> (204 :: int) < 300
   \<and> killQueryUserName (cluster (exScope 7 (exUser 0 0) (exClusterUser 0 0) ''admin'')) \<noteq> []
   \<and> Path (addr (host (exScope 7 (exUser 0 0) (exClusterUser 0 0) ''admin''))) = []
   \<and> Query_url (addr (host (exScope 7 (exUser 0 0) (exClusterUser 0 0) ''admin''))) = Map.empty
   \<and> ClientDo (exEnv 204)
        (hd (fst (scope_killQuery (exEnv 204) (exScope 7 (exUser 0 0) (exClusterUser 0 0) ''admin''))))
       = Inr \<lparr>StatusCode = 204, Body_response = ''answer''\<rparr>
   \<and> snd (scope_killQuery (exEnv 204) (exScope 7 (exUser 0 0) (exClusterUser 0 0) ''admin''))
       = Some (UnexpectedStatusCode
                 (''KILL QUERY WHERE query_id = '' @ [CHR 0x27] @ ''7'' @ [CHR 0x27])
                 ''http://h1:8123'' 204 ''answer'')"
  by (simp add: ex_kill_204) (simp add: ex_defs)

section \<open>The rewriting of the request\<close>

lemma int_of_uint32_eq: "int_of_uint32 x = uint x"
proof -
  let ?y = "ucast x :: 64 word"
  have eq: "uint ?y = uint x"
    by (simp add: uint_up_ucast is_up)
  have "uint x < 2 ^ 32" using uint_bounded [of x] by simp
  then have hi: "uint ?y < 2 ^ 63" using eq by simp
  have "(0::int) \<le> uint ?y" by simp
  then have lo: "- (2 ^ 63) \<le> uint ?y" by (rule order_trans [rotated]) simp
  have "sint ?y = signed_take_bit 63 (uint ?y)" by (simp add: sint_uint)
  also have "\<dots> = uint ?y" using lo hi by (rule signed_take_bit_int_eq_self)
  finally show ?thesis by (simp add: int_of_uint32_def eq)
qed

lemma Itoa_uint32: "Itoa (int_of_uint32 x) = decimal (unat x)"
  by (simp add: Itoa_def int_of_uint32_eq)

text \<open>
  C3, as the code has it. After \<^verbatim>\<open>decorateRequest\<close> the query parameters of the request
  are \<^verbatim>\<open>query_id\<close> with the scope's id in decimal and, when the first value of the inbound
  parameter \<^verbatim>\<open>query\<close> is not empty, \<^verbatim>\<open>query\<close> with that first value; every other
  parameter, and every further value of \<^verbatim>\<open>query\<close>, is dropped.
\<close>

theorem decorateRequest_params:
  "Query_url (URL (fst (scope_decorateRequest s req))) =
     (if Values_Get (Query_url (URL req)) ''query'' = []
      then [''query_id'' \<mapsto> [decimal (unat (id_scope s))]]
      else [''query_id'' \<mapsto> [decimal (unat (id_scope s))],
            ''query'' \<mapsto> [Values_Get (Query_url (URL req)) ''query'']])"
  by (simp add: scope_decorateRequest_def Let_def SetBasicAuth_def Values_Set_def Itoa_uint32)

text \<open>
  The inbound request \<^verbatim>\<open>http://in/?query=SELECT+1&database=x&query_id=99\<close> in scope 7.
\<close>

theorem decorateRequest_params_witness:
  "Query_url (URL (fst (scope_decorateRequest (exScope 7 (exUser 0 0) (exClusterUser 0 0) [])
      (exRequest [''query'' \<mapsto> [''SELECT 1''], ''database'' \<mapsto> [''x''],
                  ''query_id'' \<mapsto> [''99'']]))))
    = [''query_id'' \<mapsto> [''7''], ''query'' \<mapsto> [''SELECT 1'']]"
proof -
  let ?s = "exScope 7 (exUser 0 0) (exClusterUser 0 0) []"
  let ?req = "exRequest [''query'' \<mapsto> [''SELECT 1''], ''database'' \<mapsto> [''x''],
                  ''query_id'' \<mapsto> [''99'']]"
  have "Values_Get (Query_url (URL ?req)) ''query'' = ''SELECT 1''"
    "decimal (unat (id_scope ?s)) = ''7''"
    by (simp_all add: exRequest_def Values_Get_def exScope_def decimal_7)
  with decorateRequest_params [of ?s ?req] show ?thesis by simp
qed

text \<open>
  C3, as the claim has it, fails: the inbound request \<^verbatim>\<open>http://in/?query=\<close> has a
  parameter \<^verbatim>\<open>query\<close>, whose value is empty, and the decorated request has none.
\<close>

theorem decorateRequest_drops_empty_query:
  "Query_url (URL (exRequest [''query'' \<mapsto> [[]]])) ''query'' = Some [[]]
   \<and> Query_url (URL (fst (scope_decorateRequest (exScope 7 (exUser 0 0) (exClusterUser 0 0) [])
         (exRequest [''query'' \<mapsto> [[]]])))) ''query'' = None"
  by (simp add: scope_decorateRequest_def Let_def SetBasicAuth_def Values_Set_def Values_Get_def
      exRequest_def)

section \<open>Penalties\<close>

lemma unat_5_times:
  "n \<le> 60 \<Longrightarrow> unat (5 * word_of_nat n :: uint32) = 5 * n"
  by (simp add: unat_word_ariths unat_of_nat)

lemma penalty_inv_unat:
  "penalty_inv w \<Longrightarrow> unat (penalty (subject w)) = 5 * length (pending w)"
  by (simp add: penalty_inv_def unat_5_times)

lemma host_penalize_cases:
  "host_penalize h =
     (if 300 \<le> penalty h then (h, [], 0)
      else (h\<lparr>penalty := penalty h + 5\<rparr>, [Second * 10], 1))"
  by (simp add: host_penalize_def penaltyMaxSize_def penaltySize_def penaltyDuration_def Let_def)

lemma penalize_decay_eq: "penalize_decay h = h\<lparr>penalty := penalty h - 5\<rparr>"
  by (simp add: penalize_decay_def penaltySize_def)

lemma step_Penalize_inv:
  assumes "penalty_inv w" "step w Penalize = Some w'"
  shows "penalty_inv w'"
proof (cases "300 \<le> penalty (subject w)")
  case True
  then have "w' = w" using assms(2) by (simp add: host_penalize_cases)
  then show ?thesis using assms(1) by simp
next
  case False
  then have "unat (penalty (subject w)) < 300" by (simp add: word_le_nat_alt)
  then have n: "length (pending w) < 60" using penalty_inv_unat [OF assms(1)] by simp
  have w': "w' = w\<lparr>subject := (subject w)\<lparr>penalty := penalty (subject w) + 5\<rparr>,
        pending := pending w @ [now w + unat (Second * 10)],
        hostPenalties := hostPenalties w + 1\<rparr>"
    using assms(2) False by (simp add: host_penalize_cases)
  show ?thesis
    using assms(1) n unfolding w' penalty_inv_def
    by (simp add: penaltyDuration_def algebra_simps)
qed

lemma step_Fire_inv:
  assumes "penalty_inv w" "step w (Fire k) = Some w'"
  shows "penalty_inv w'"
proof -
  have k: "k < length (pending w)" and w': "w' = w\<lparr>subject := penalize_decay (subject w),
        pending := take k (pending w) @ drop (Suc k) (pending w)\<rparr>"
    using assms(2) by (auto split: if_splits)
  have len: "length (take k (pending w) @ drop (Suc k) (pending w)) = length (pending w) - 1"
    using k by simp
  have "(word_of_nat (length (pending w)) :: uint32) = word_of_nat (length (pending w) - 1) + 1"
    using k by (cases "length (pending w)") simp_all
  then have p: "penalty (subject w) - 5 = 5 * word_of_nat (length (pending w) - 1)"
    using assms(1) by (simp add: penalty_inv_def algebra_simps)
  have "set (take k (pending w) @ drop (Suc k) (pending w)) \<subseteq> set (pending w)"
    using set_take_subset set_drop_subset by fastforce
  then have due: "list_all (\<lambda>d. d \<le> now w + unat penaltyDuration)
      (take k (pending w) @ drop (Suc k) (pending w))"
    using assms(1) unfolding penalty_inv_def list_all_iff by blast
  have n: "length (pending w) - 1 \<le> 60" using assms(1) by (auto simp: penalty_inv_def)
  show ?thesis
    unfolding w' penalty_inv_def using n p due len
    by (simp add: penalize_decay_eq del: length_append length_take length_drop)
qed

lemma step_Sleep_inv:
  assumes "penalty_inv w" "step w (Sleep d) = Some w'"
  shows "penalty_inv w'"
proof -
  have "w' = w\<lparr>now := now w + d\<rparr>" using assms(2) by simp
  then show ?thesis using assms(1) by (auto simp: penalty_inv_def list_all_iff)
qed

lemma step_inv: "penalty_inv w \<Longrightarrow> step w e = Some w' \<Longrightarrow> penalty_inv w'"
  by (cases e) (blast intro: step_Penalize_inv step_Fire_inv step_Sleep_inv)+

lemma run_inv: "penalty_inv w \<Longrightarrow> run w es = Some w' \<Longrightarrow> penalty_inv w'"
proof (induction es arbitrary: w)
  case Nil
  then show ?case by simp
next
  case (Cons e es)
  then show ?case by (auto split: option.splits dest: step_inv)
qed

lemma settle_due:
  "list_all (\<lambda>d. d \<le> now w) (pending w) \<Longrightarrow> n = length (pending w) \<Longrightarrow>
     \<exists>w'. run w (replicate n (Fire 0)) = Some w' \<and> pending w' = []"
proof (induction n arbitrary: w)
  case 0
  then show ?case by simp
next
  case (Suc n)
  then obtain d ds where p: "pending w = d # ds" by (cases "pending w") auto
  let ?w = "w\<lparr>subject := penalize_decay (subject w), pending := ds\<rparr>"
  have s: "step w (Fire 0) = Some ?w" using Suc.prems(1) p by simp
  have "list_all (\<lambda>d. d \<le> now ?w) (pending ?w)" "n = length (pending ?w)"
    using Suc.prems p by simp_all
  from Suc.IH [OF this] show ?case using s by simp
qed

lemma settle:
  assumes "penalty_inv w"
  shows "\<exists>w'. run w (Sleep (unat penaltyDuration) # replicate (length (pending w)) (Fire 0)) = Some w'
           \<and> pending w' = [] \<and> penalty (subject w') = 0"
proof -
  let ?w = "w\<lparr>now := now w + unat penaltyDuration\<rparr>"
  have "list_all (\<lambda>d. d \<le> now ?w) (pending ?w)" "length (pending w) = length (pending ?w)"
    using assms by (simp_all add: penalty_inv_def)
  from settle_due [OF this] obtain w' where
    w': "run ?w (replicate (length (pending w)) (Fire 0)) = Some w'" "pending w' = []"
    by blast
  have "penalty_inv ?w" using assms by (auto simp: penalty_inv_def list_all_iff)
  from run_inv [OF this w'(1)] have "penalty (subject w') = 0"
    using w'(2) by (simp add: penalty_inv_def)
  with w' show ?thesis by simp
qed

text \<open>
  C5. A host starts with penalty 0 and no timer. After every sequence of calls of
  \<^verbatim>\<open>penalize\<close>, runs of due timers and passing of time, the penalty is a multiple of 5
  between 0 and 300, namely 5 for each timer still pending; it is 0 when no timer is
  pending, and once 10 seconds have passed all pending timers can run, which leaves the
  penalty at 0. A call of \<^verbatim>\<open>penalize\<close> at a penalty of 300 or more changes nothing and
  starts no timer; any other call adds 5 and starts one timer of 10 seconds, which
  subtracts 5 when it runs. (Each call of \<^verbatim>\<open>penalize\<close> is one step of the sequence.)
\<close>

theorem penalty_bounded:
  "(penalty h = 0
      \<and> run \<lparr>subject = h, now = t, pending = [], hostPenalties = m\<rparr> es = Some w \<longrightarrow>
        5 dvd unat (penalty (subject w)) \<and> unat (penalty (subject w)) \<le> 300
        \<and> unat (penalty (subject w)) = 5 * length (pending w)
        \<and> (pending w = [] \<longrightarrow> penalty (subject w) = 0)
        \<and> (\<exists>w'. run w (Sleep (unat penaltyDuration) # replicate (length (pending w)) (Fire 0))
                   = Some w'
                 \<and> pending w' = [] \<and> penalty (subject w') = 0))
   \<and> (300 \<le> penalty g \<longrightarrow> host_penalize g = (g, [], 0))
   \<and> (penalty g < 300 \<longrightarrow>
        host_penalize g = (g\<lparr>penalty := penalty g + 5\<rparr>, [penaltyDuration], 1))
   \<and> penalty (penalize_decay g) = penalty g - 5
   \<and> unat penaltyDuration = 10 * 1000000000"
proof (intro conjI impI)
  assume a: "penalty h = 0
      \<and> run \<lparr>subject = h, now = t, pending = [], hostPenalties = m\<rparr> es = Some w"
  then have "penalty_inv \<lparr>subject = h, now = t, pending = [], hostPenalties = m\<rparr>"
    by (simp add: penalty_inv_def)
  with a have inv: "penalty_inv w" using run_inv by blast
  then have u: "unat (penalty (subject w)) = 5 * length (pending w)"
    by (rule penalty_inv_unat)
  show "unat (penalty (subject w)) = 5 * length (pending w)" by (rule u)
  show "5 dvd unat (penalty (subject w))" using u by simp
  show "unat (penalty (subject w)) \<le> 300" using u inv by (simp add: penalty_inv_def)
  show "\<exists>w'. run w (Sleep (unat penaltyDuration) # replicate (length (pending w)) (Fire 0))
                   = Some w' \<and> pending w' = [] \<and> penalty (subject w') = 0"
    using inv by (rule settle)
  show "penalty (subject w) = 0" if "pending w = []"
    using inv that by (simp add: penalty_inv_def)
qed (simp_all add: host_penalize_cases penalize_decay_eq penaltyDuration_def Second_def
    word_le_nat_alt word_less_nat_alt)

lemma ex_run:
  "run \<lparr>subject = exHost 1 0 ''A'', now = 0, pending = [], hostPenalties = 0\<rparr>
     [Penalize, Penalize, Sleep 10000000000, Fire 0]
   = Some \<lparr>subject = (exHost 1 0 ''A'')\<lparr>penalty := 5\<rparr>, now = 10000000000,
       pending = [10000000000], hostPenalties = 2\<rparr>"
  by (simp add: host_penalize_cases penalize_decay_eq ex_defs Second_def)

text \<open>
  Two calls of \<^verbatim>\<open>penalize\<close>, ten seconds, and the run of the first timer: the penalty
  is 5 with one timer pending. At a penalty of 300 \<^verbatim>\<open>penalize\<close> does nothing, at 295 it
  adds 5.
\<close>

theorem penalty_bounded_witness:
  "penalty (exHost 1 0 ''A'') = 0
   \<and> run \<lparr>subject = exHost 1 0 ''A'', now = 0, pending = [], hostPenalties = 0\<rparr>
       [Penalize, Penalize, Sleep 10000000000, Fire 0]
     = Some \<lparr>subject = (exHost 1 0 ''A'')\<lparr>penalty := 5\<rparr>, now = 10000000000,
         pending = [10000000000], hostPenalties = 2\<rparr>
   \<and> unat (penalty ((exHost 1 0 ''A'')\<lparr>penalty := 5\<rparr>)) = 5 * length [10000000000 :: nat]
   \<and> 300 \<le> penalty ((exHost 1 0 ''A'')\<lparr>penalty := 300\<rparr>)
   \<and> host_penalize ((exHost 1 0 ''A'')\<lparr>penalty := 300\<rparr>)
       = ((exHost 1 0 ''A'')\<lparr>penalty := 300\<rparr>, [], 0)
   \<and> penalty ((exHost 1 0 ''A'')\<lparr>penalty := 295\<rparr>) < 300
   \<and> host_penalize ((exHost 1 0 ''A'')\<lparr>penalty := 295\<rparr>)
       = ((exHost 1 0 ''A'')\<lparr>penalty := 300\<rparr>, [penaltyDuration], 1)"
proof -
  let ?h = "exHost 1 0 ''A''"
  let ?w = "\<lparr>subject = ?h\<lparr>penalty := 5\<rparr>, now = 10000000000,
         pending = [10000000000], hostPenalties = 2\<rparr>"
  have hyp: "penalty ?h = 0
      \<and> run \<lparr>subject = ?h, now = 0, pending = [], hostPenalties = 0\<rparr>
          [Penalize, Penalize, Sleep 10000000000, Fire 0] = Some ?w"
    using ex_run by (simp add: exHost_def)
  have full: "300 \<le> penalty (?h\<lparr>penalty := 300\<rparr>)" by simp
  have room: "penalty (?h\<lparr>penalty := 295\<rparr>) < 300" by (simp add: word_less_nat_alt)
  note b = penalty_bounded [of ?h 0 0 "[Penalize, Penalize, Sleep 10000000000, Fire 0]" ?w
      "?h\<lparr>penalty := 300\<rparr>"]
    and c = penalty_bounded [of ?h 0 0 "[Penalize, Penalize, Sleep 10000000000, Fire 0]" ?w
      "?h\<lparr>penalty := 295\<rparr>"]
  from b hyp have "unat (penalty (subject ?w)) = 5 * length (pending ?w)" by blast
  moreover from b full have "host_penalize (?h\<lparr>penalty := 300\<rparr>) = (?h\<lparr>penalty := 300\<rparr>, [], 0)"
    by blast
  moreover from c room have "host_penalize (?h\<lparr>penalty := 295\<rparr>)
      = (?h\<lparr>penalty := 295, penalty := penalty (?h\<lparr>penalty := 295\<rparr>) + 5\<rparr>, [penaltyDuration], 1)"
    by blast
  ultimately show ?thesis using hyp full room by simp
qed

end
